theory Spec2Isabelle
  imports Complex_Main "HOL-Library.Sublist"
begin

section \<open>Values exchanged with the client\<close>

text \<open>
  The handlers of \<^verbatim>\<open>app.py\<close> answer with \<^verbatim>\<open>jsonify(...)\<close> and a status code. A JSON
  value is a datatype; an object keeps its members in the order the source writes them.
  The integers that occur are primary keys (the route converter \<^verbatim>\<open>int\<close> of Flask accepts
  unsigned decimal numbers only), so they are natural numbers. A \<^verbatim>\<open>datetime\<close> is a point
  on a discrete clock.
\<close>

type_synonym timestamp = nat

datatype json =
    JNull
  | JNum nat
  | JFloat real
  | JStr string
  | JDate timestamp
  | JArr "json list"
  | JObj "(string \<times> json) list"

type_synonym response = "nat \<times> json"

text \<open>
  A handler that raises does not produce a response of its own. The exceptions that the
  handlers can raise are values: \<^verbatim>\<open>KeyError\<close> from subscripting the request body, and
  \<^verbatim>\<open>IntegrityError\<close> from \<^verbatim>\<open>db.session.commit()\<close> when a declared column constraint is
  violated.
\<close>

datatype py_error = KeyError string | IntegrityError string

type_synonym 'a result = "py_error + 'a"

text \<open>
  \<^verbatim>\<open>request.json\<close> is a dictionary; the members read by the handlers (name, phone, aadhaar)
  are text columns, so a member value is a JSON string or \<^verbatim>\<open>null\<close> (\<open>None\<close>). A body that
  is not a JSON object, or a member of another JSON type, is outside this model.
  \<^verbatim>\<open>request.files\<close> maps a field name to an uploaded file, \<^verbatim>\<open>request.form\<close> to a string.
\<close>

type_synonym payload = "string \<rightharpoonup> string option"

record file_storage =
  filename :: string
  mimetype :: string
  content :: string

type_synonym files = "string \<rightharpoonup> file_storage"
type_synonym form = "string \<rightharpoonup> string"

definition jopt :: "('a \<Rightarrow> json) \<Rightarrow> 'a option \<Rightarrow> json" where
  "jopt f v = (case v of None \<Rightarrow> JNull | Some x \<Rightarrow> f x)"

section \<open>Models\<close>

text \<open>
  One record per model class. A column declared \<^verbatim>\<open>nullable=False\<close> (and a primary key)
  holds a value; every other column is optional. Field names that several classes share
  carry the class as a prefix.
\<close>

record user =
  uid :: nat
  name :: string
  phone :: string
  aadhaar :: "string option"
  email :: "string option"
  address :: "string option"
  created_at :: "timestamp option"
  updated_at :: "timestamp option"

record document =
  doc_id :: nat
  doc_user_id :: nat
  doc_type :: string
  doc_url :: string
  doc_status :: "string option"
  uploaded_at :: "timestamp option"

record face =
  face_id :: nat
  face_user_id :: nat
  face_url :: string
  liveness_score :: "real option"
  match_score :: "real option"
  face_status :: "string option"
  face_created_at :: "timestamp option"

text \<open>One call of \<^verbatim>\<open>s3.upload_fileobj\<close>: bucket, key, body and the content type.\<close>

record s3_put =
  put_bucket :: string
  put_key :: string
  put_body :: string
  put_content_type :: string

text \<open>
  The state the handlers act on: the three tables in insertion order, the key generators
  of the three primary keys, and the sequence of object-store writes made so far.
\<close>

record app_state =
  users :: "user list"
  documents :: "document list"
  faces :: "face list"
  next_user_id :: nat
  next_doc_id :: nat
  next_face_id :: nat
  s3_calls :: "s3_put list"

definition init_state :: app_state where
  "init_state = \<lparr>users = [], documents = [], faces = [],
     next_user_id = 1, next_doc_id = 1, next_face_id = 1, s3_calls = []\<rparr>"

text \<open>
  The configuration read from the environment, and \<^verbatim>\<open>werkzeug.utils.secure_filename\<close>,
  a library function that the repository calls and does not define: it is a parameter.
\<close>

record env =
  S3_ENDPOINT :: string
  S3_BUCKET :: string
  secure_filename :: "string \<Rightarrow> string"

section \<open>Python string operations\<close>

text \<open>
  \<^verbatim>\<open>str.replace(old, new)\<close> replaces every non-overlapping occurrence of \<^verbatim>\<open>old\<close>,
  scanning from the left. For an empty \<^verbatim>\<open>old\<close> Python inserts \<^verbatim>\<open>new\<close> before every
  character and at the end.
\<close>

function replace_ne :: "string \<Rightarrow> string \<Rightarrow> string \<Rightarrow> string" where
  "replace_ne old new [] = []"
| "replace_ne old new (c # cs) =
     (if old \<noteq> [] \<and> prefix old (c # cs)
      then new @ replace_ne old new (drop (length old) (c # cs))
      else c # replace_ne old new cs)"
  by pat_completeness auto
termination
  by (relation "measure (\<lambda>(old, new, s). length s)") auto

definition py_replace :: "string \<Rightarrow> string \<Rightarrow> string \<Rightarrow> string" where
  "py_replace s old new =
     (if old = [] then new @ concat (map (\<lambda>c. c # new) s) else replace_ne old new s)"

text \<open>The decimal text of a number, as an f-string renders an \<^verbatim>\<open>int\<close>.\<close>

definition digit_char :: "nat \<Rightarrow> char" where
  "digit_char d = ''0123456789'' ! (d mod 10)"

function str_nat :: "nat \<Rightarrow> string" where
  "str_nat n = (if n < 10 then [digit_char n] else str_nat (n div 10) @ [digit_char (n mod 10)])"
  by pat_completeness auto
termination
  by (relation "measure id") auto

declare str_nat.simps [simp del]

section \<open>Helper: the object storage gateway\<close>

text \<open>
  \<^verbatim>\<open>upload_to_supabase(file, path)\<close>: sanitise the file name, compose the key, write the
  object, and build the public URL from the endpoint with \<^verbatim>\<open>.replace('/s3','')\<close>.
\<close>

definition upload_to_supabase ::
  "env \<Rightarrow> file_storage \<Rightarrow> string \<Rightarrow> app_state \<Rightarrow> string \<times> app_state" where
  "upload_to_supabase e file path s =
     (let fname = secure_filename e (filename file);
          key = path @ ''/'' @ fname;
          s' = s\<lparr>s3_calls := s3_calls s @
                 [\<lparr>put_bucket = S3_BUCKET e, put_key = key, put_body = content file,
                   put_content_type = mimetype file\<rparr>]\<rparr>
      in (py_replace (S3_ENDPOINT e) ''/s3'' '''' @ ''/object/public/'' @ S3_BUCKET e @ ''/'' @ key,
          s'))"

section \<open>Persistence\<close>

text \<open>
  \<^verbatim>\<open>Model.query.get(id)\<close> is a lookup by primary key. \<^verbatim>\<open>db.session.add\<close> followed by
  \<^verbatim>\<open>db.session.commit()\<close> inserts one row, with the column defaults filled in; the commit
  raises \<^verbatim>\<open>IntegrityError\<close> and stores nothing when a \<^verbatim>\<open>nullable=False\<close> column would
  be \<^verbatim>\<open>NULL\<close> or the \<^verbatim>\<open>unique=True\<close> column aadhaar would repeat a value already stored.
  The declared lengths of the text columns are not checked here (whether they are depends
  on the database behind \<^verbatim>\<open>DATABASE_URL\<close>). No \<^verbatim>\<open>relationship\<close> or cascade is declared, and
  the foreign keys of \<^verbatim>\<open>documents\<close> and \<^verbatim>\<open>faces\<close> name a table \<^verbatim>\<open>users\<close> while class
  \<^verbatim>\<open>User\<close> sets no table name, so deleting a User row touches that row only.
\<close>

definition get_user_row :: "app_state \<Rightarrow> nat \<Rightarrow> user option" where
  "get_user_row s i = find (\<lambda>u. uid u = i) (users s)"

definition get_document_row :: "app_state \<Rightarrow> nat \<Rightarrow> document option" where
  "get_document_row s i = find (\<lambda>d. doc_id d = i) (documents s)"

definition get_face_row :: "app_state \<Rightarrow> nat \<Rightarrow> face option" where
  "get_face_row s i = find (\<lambda>f. face_id f = i) (faces s)"

definition aadhaar_taken :: "user list \<Rightarrow> string option \<Rightarrow> bool" where
  "aadhaar_taken us ad = (case ad of None \<Rightarrow> False | Some a \<Rightarrow> Some a \<in> set (map aadhaar us))"

definition insert_user ::
  "timestamp \<Rightarrow> string option \<Rightarrow> string option \<Rightarrow> string option \<Rightarrow> app_state
     \<Rightarrow> (nat \<times> app_state) result" where
  "insert_user now nm ph ad s =
     (case nm of
        None \<Rightarrow> Inl (IntegrityError ''name'')
      | Some n \<Rightarrow>
          (case ph of
             None \<Rightarrow> Inl (IntegrityError ''phone'')
           | Some p \<Rightarrow>
               if aadhaar_taken (users s) ad then Inl (IntegrityError ''aadhaar'')
               else Inr (next_user_id s,
                     s\<lparr>users := users s @
                          [\<lparr>uid = next_user_id s, name = n, phone = p, aadhaar = ad,
                            email = None, address = None,
                            created_at = Some now, updated_at = None\<rparr>],
                       next_user_id := Suc (next_user_id s)\<rparr>)))"

text \<open>
  The commit of a modified User. The unit of work emits an \<^verbatim>\<open>UPDATE\<close> only when an
  attribute has a net change; \<^verbatim>\<open>onupdate=datetime.utcnow\<close> fills \<^verbatim>\<open>updated_at\<close> in that
  statement, and in no other case.
\<close>

definition commit_user_update ::
  "timestamp \<Rightarrow> user \<Rightarrow> string option \<Rightarrow> string option \<Rightarrow> string option \<Rightarrow> app_state
     \<Rightarrow> app_state result" where
  "commit_user_update now u ph nm ad s =
     (if ph = Some (phone u) \<and> nm = Some (name u) \<and> ad = aadhaar u then Inr s
      else
        (case nm of
           None \<Rightarrow> Inl (IntegrityError ''name'')
         | Some n \<Rightarrow>
             (case ph of
                None \<Rightarrow> Inl (IntegrityError ''phone'')
              | Some p \<Rightarrow>
                  if aadhaar_taken (filter (\<lambda>v. uid v \<noteq> uid u) (users s)) ad
                  then Inl (IntegrityError ''aadhaar'')
                  else Inr (s\<lparr>users := map (\<lambda>v. if uid v = uid u
                                 then v\<lparr>name := n, phone := p, aadhaar := ad,
                                        updated_at := Some now\<rparr>
                                 else v) (users s)\<rparr>))))"

section \<open>Routes\<close>

definition home :: "app_state \<Rightarrow> response result \<times> app_state" where
  "home s = (Inr (200, JObj [(''message'',
       JStr (''KYC API with Users, Documents & Faces '' @ [CHR 0xE2, CHR 0x9C, CHR 0x85]))]), s)"

subsection \<open>Users\<close>

definition create_user :: "timestamp \<Rightarrow> payload \<Rightarrow> app_state \<Rightarrow> response result \<times> app_state" where
  "create_user now data s =
     (case data ''name'' of
        None \<Rightarrow> (Inl (KeyError ''name''), s)
      | Some nm \<Rightarrow>
          (case data ''phone'' of
             None \<Rightarrow> (Inl (KeyError ''phone''), s)
           | Some ph \<Rightarrow>
               (case insert_user now nm ph (case data ''aadhaar'' of None \<Rightarrow> None | Some v \<Rightarrow> v) s of
                  Inl err \<Rightarrow> (Inl err, s)
                | Inr (i, s') \<Rightarrow>
                    (Inr (201, JObj [(''status'', JStr ''success''), (''user_id'', JNum i)]), s'))))"

definition user_json :: "user \<Rightarrow> json" where
  "user_json u = JObj [(''id'', JNum (uid u)), (''name'', JStr (name u)),
     (''phone'', JStr (phone u)), (''aadhaar'', jopt JStr (aadhaar u)),
     (''created_at'', jopt JDate (created_at u))]"

definition get_user :: "nat \<Rightarrow> app_state \<Rightarrow> response result \<times> app_state" where
  "get_user i s =
     (case get_user_row s i of
        None \<Rightarrow> (Inr (404, JObj [(''error'', JStr ''User not found'')]), s)
      | Some u \<Rightarrow> (Inr (200, user_json u), s))"

definition update_user ::
  "timestamp \<Rightarrow> nat \<Rightarrow> payload \<Rightarrow> app_state \<Rightarrow> response result \<times> app_state" where
  "update_user now i data s =
     (case get_user_row s i of
        None \<Rightarrow> (Inr (404, JObj [(''error'', JStr ''User not found'')]), s)
      | Some u \<Rightarrow>
          (let ph = (case data ''phone'' of None \<Rightarrow> Some (phone u) | Some v \<Rightarrow> v);
               nm = (case data ''name'' of None \<Rightarrow> Some (name u) | Some v \<Rightarrow> v);
               ad = (case data ''aadhaar'' of None \<Rightarrow> aadhaar u | Some v \<Rightarrow> v)
           in case commit_user_update now u ph nm ad s of
                Inl err \<Rightarrow> (Inl err, s)
              | Inr s' \<Rightarrow> (Inr (200, JObj [(''status'', JStr ''updated'')]), s')))"

definition delete_user :: "nat \<Rightarrow> app_state \<Rightarrow> response result \<times> app_state" where
  "delete_user i s =
     (case get_user_row s i of
        None \<Rightarrow> (Inr (404, JObj [(''error'', JStr ''User not found'')]), s)
      | Some u \<Rightarrow>
          (Inr (200, JObj [(''status'', JStr ''deleted'')]),
           s\<lparr>users := filter (\<lambda>v. uid v \<noteq> uid u) (users s)\<rparr>))"

subsection \<open>Documents\<close>

definition upload_document ::
  "env \<Rightarrow> timestamp \<Rightarrow> nat \<Rightarrow> files \<Rightarrow> form \<Rightarrow> app_state \<Rightarrow> response result \<times> app_state" where
  "upload_document e now i fs fm s =
     (case get_user_row s i of
        None \<Rightarrow> (Inr (404, JObj [(''error'', JStr ''User not found'')]), s)
      | Some u \<Rightarrow>
          (case (fs ''file'', fm ''doc_type'') of
             (Some file, Some dt) \<Rightarrow>
               (let (url, s1) = upload_to_supabase e file (''documents/'' @ str_nat i @ ''/'' @ dt) s;
                    d = \<lparr>doc_id = next_doc_id s1, doc_user_id = i, doc_type = dt, doc_url = url,
                         doc_status = Some ''pending'', uploaded_at = Some now\<rparr>
                in (Inr (201, JObj [(''status'', JStr ''uploaded''), (''doc_id'', JNum (doc_id d)),
                                    (''doc_url'', JStr url)]),
                    s1\<lparr>documents := documents s1 @ [d], next_doc_id := Suc (next_doc_id s1)\<rparr>))
           | _ \<Rightarrow> (Inr (400, JObj [(''error'', JStr ''File and doc_type required'')]), s)))"

definition document_json :: "document \<Rightarrow> json" where
  "document_json d = JObj [(''id'', JNum (doc_id d)), (''doc_type'', JStr (doc_type d)),
     (''doc_url'', JStr (doc_url d)), (''status'', jopt JStr (doc_status d)),
     (''uploaded_at'', jopt JDate (uploaded_at d))]"

definition list_documents :: "nat \<Rightarrow> app_state \<Rightarrow> response result \<times> app_state" where
  "list_documents i s =
     (Inr (200, JArr (map document_json (filter (\<lambda>d. doc_user_id d = i) (documents s)))), s)"

definition delete_document :: "nat \<Rightarrow> app_state \<Rightarrow> response result \<times> app_state" where
  "delete_document i s =
     (case get_document_row s i of
        None \<Rightarrow> (Inr (404, JObj [(''error'', JStr ''Document not found'')]), s)
      | Some d \<Rightarrow>
          (Inr (200, JObj [(''status'', JStr ''deleted'')]),
           s\<lparr>documents := filter (\<lambda>v. doc_id v \<noteq> doc_id d) (documents s)\<rparr>))"

subsection \<open>Faces\<close>

definition upload_face ::
  "env \<Rightarrow> timestamp \<Rightarrow> nat \<Rightarrow> files \<Rightarrow> app_state \<Rightarrow> response result \<times> app_state" where
  "upload_face e now i fs s =
     (case get_user_row s i of
        None \<Rightarrow> (Inr (404, JObj [(''error'', JStr ''User not found'')]), s)
      | Some u \<Rightarrow>
          (case fs ''file'' of
             None \<Rightarrow> (Inr (400, JObj [(''error'', JStr ''File required'')]), s)
           | Some file \<Rightarrow>
               (let (url, s1) = upload_to_supabase e file (''faces/'' @ str_nat i) s;
                    f = \<lparr>face_id = next_face_id s1, face_user_id = i, face_url = url,
                         liveness_score = None, match_score = None,
                         face_status = Some ''pending'', face_created_at = Some now\<rparr>
                in (Inr (201, JObj [(''status'', JStr ''uploaded''), (''face_id'', JNum (face_id f)),
                                    (''face_url'', JStr url)]),
                    s1\<lparr>faces := faces s1 @ [f], next_face_id := Suc (next_face_id s1)\<rparr>))))"

definition face_json :: "face \<Rightarrow> json" where
  "face_json f = JObj [(''id'', JNum (face_id f)), (''face_url'', JStr (face_url f)),
     (''liveness_score'', jopt JFloat (liveness_score f)),
     (''match_score'', jopt JFloat (match_score f)),
     (''status'', jopt JStr (face_status f)),
     (''created_at'', jopt JDate (face_created_at f))]"

definition get_faces :: "nat \<Rightarrow> app_state \<Rightarrow> response result \<times> app_state" where
  "get_faces i s =
     (Inr (200, JArr (map face_json (filter (\<lambda>f. face_user_id f = i) (faces s)))), s)"

definition delete_face :: "nat \<Rightarrow> app_state \<Rightarrow> response result \<times> app_state" where
  "delete_face i s =
     (case get_face_row s i of
        None \<Rightarrow> (Inr (404, JObj [(''error'', JStr ''Face not found'')]), s)
      | Some f \<Rightarrow>
          (Inr (200, JObj [(''status'', JStr ''deleted'')]),
           s\<lparr>faces := filter (\<lambda>v. face_id v \<noteq> face_id f) (faces s)\<rparr>))"

subsection \<open>The application\<close>

text \<open>One constructor per route; \<open>handle\<close> is the dispatch of Flask.\<close>

datatype request =
    Home
  | PostUsers payload
  | GetUser nat
  | PutUser nat payload
  | DeleteUser nat
  | PostDocuments nat files form
  | GetDocuments nat
  | DeleteDocument nat
  | PostFace nat files
  | GetFace nat
  | DeleteFace nat

fun handle :: "env \<Rightarrow> timestamp \<Rightarrow> request \<Rightarrow> app_state \<Rightarrow> response result \<times> app_state" where
  "handle e now Home s = home s"
| "handle e now (PostUsers data) s = create_user now data s"
| "handle e now (GetUser i) s = get_user i s"
| "handle e now (PutUser i data) s = update_user now i data s"
| "handle e now (DeleteUser i) s = delete_user i s"
| "handle e now (PostDocuments i fs fm) s = upload_document e now i fs fm s"
| "handle e now (GetDocuments i) s = list_documents i s"
| "handle e now (DeleteDocument i) s = delete_document i s"
| "handle e now (PostFace i fs) s = upload_face e now i fs s"
| "handle e now (GetFace i) s = get_faces i s"
| "handle e now (DeleteFace i) s = delete_face i s"

text \<open>The states the application can be in: the empty store, and whatever a request leaves.\<close>

inductive reachable :: "env \<Rightarrow> app_state \<Rightarrow> bool" for e :: env where
  reachable_init: "reachable e init_state"
| reachable_step: "reachable e s \<Longrightarrow> reachable e (snd (handle e now req s))"

section \<open>The public URL as the specification words it\<close>

text \<open>
  The specification strips the \<^verbatim>\<open>/s3\<close> path suffix of the endpoint, if present, and
  substitutes the result into \<^verbatim>\<open>{endpointBase}/object/public/{bucket}/{key}\<close>. These two
  definitions follow those words, for comparison with \<open>upload_to_supabase\<close>.
\<close>

definition spec_endpoint_base :: "string \<Rightarrow> string" where
  "spec_endpoint_base ep = (if suffix ''/s3'' ep then take (length ep - 3) ep else ep)"

definition spec_public_url :: "string \<Rightarrow> string \<Rightarrow> string \<Rightarrow> string" where
  "spec_public_url ep bucket key = spec_endpoint_base ep @ ''/object/public/'' @ bucket @ ''/'' @ key"

section \<open>Well-formed stores\<close>

text \<open>
  What every store the application builds satisfies: primary keys of users are pairwise
  different and below the key generator, and two rows with the same non-null aadhaar are
  the same row.
\<close>

definition store_inv :: "app_state \<Rightarrow> bool" where
  "store_inv s \<longleftrightarrow>
     distinct (map uid (users s))
     \<and> (\<forall>u\<in>set (users s). uid u < next_user_id s)
     \<and> (\<forall>u\<in>set (users s). \<forall>v\<in>set (users s).
           aadhaar u \<noteq> None \<and> aadhaar u = aadhaar v \<longrightarrow> uid u = uid v)"

section \<open>Example data\<close>

text \<open>
  A stand-in for the library parameter \<open>secure_filename\<close> in the examples: it keeps letters,
  digits, underscore, dot and hyphen. The examples only use file names that consist of
  such characters.
\<close>

definition example_sanitize :: "string \<Rightarrow> string" where
  "example_sanitize f =
     filter (\<lambda>c. c \<in> set ''ABCDEFGHIJKLMNOPQRSTUVWXYZabcdefghijklmnopqrstuvwxyz0123456789_.-'') f"

definition ex_env :: env where
  "ex_env = \<lparr>S3_ENDPOINT = ''https://proj.supabase.co/storage/v1/s3'', S3_BUCKET = ''kyc'',
     secure_filename = example_sanitize\<rparr>"

text \<open>A configuration whose endpoint has \<^verbatim>\<open>/s3\<close> in its host part as well.\<close>

definition ex_env_s3_host :: env where
  "ex_env_s3_host = \<lparr>S3_ENDPOINT = ''https://s3.example.com/storage/v1/s3'', S3_BUCKET = ''kyc'',
     secure_filename = example_sanitize\<rparr>"

definition ex_file :: file_storage where
  "ex_file = \<lparr>filename = ''pan.png'', mimetype = ''image/png'', content = ''PNG''\<rparr>"

definition ex_user :: user where
  "ex_user = \<lparr>uid = 1, name = ''Asha'', phone = ''9000000001'', aadhaar = Some ''123412341234'',
     email = Some ''asha@example.org'', address = Some ''12 Lake Road'',
     created_at = Some 100, updated_at = None\<rparr>"

definition ex_document :: document where
  "ex_document = \<lparr>doc_id = 1, doc_user_id = 1, doc_type = ''pan'',
     doc_url = ''https://proj.supabase.co/storage/v1/object/public/kyc/documents/1/pan/pan.png'',
     doc_status = Some ''pending'', uploaded_at = Some 110\<rparr>"

definition ex_face :: face where
  "ex_face = \<lparr>face_id = 1, face_user_id = 1,
     face_url = ''https://proj.supabase.co/storage/v1/object/public/kyc/faces/1/me.png'',
     liveness_score = None, match_score = None,
     face_status = Some ''pending'', face_created_at = Some 120\<rparr>"

text \<open>Three request bodies for \<^verbatim>\<open>POST /users\<close>; the third repeats the aadhaar of the first.\<close>

definition ex_payload_asha :: payload where
  "ex_payload_asha = [''name'' \<mapsto> Some ''Asha'', ''phone'' \<mapsto> Some ''9000000001'',
     ''aadhaar'' \<mapsto> Some ''123412341234'']"

definition ex_payload_bala :: payload where
  "ex_payload_bala = [''name'' \<mapsto> Some ''Bala'', ''phone'' \<mapsto> Some ''9000000002'',
     ''aadhaar'' \<mapsto> Some ''432143214321'']"

definition ex_payload_dup :: payload where
  "ex_payload_dup = [''name'' \<mapsto> Some ''Chitra'', ''phone'' \<mapsto> Some ''9000000003'',
     ''aadhaar'' \<mapsto> Some ''123412341234'']"

text \<open>The store after the first two of them have been posted to the empty store.\<close>

definition ex_two_users :: app_state where
  "ex_two_users = snd (handle ex_env 100 (PostUsers ex_payload_bala)
     (snd (handle ex_env 90 (PostUsers ex_payload_asha) init_state)))"

text \<open>A store with one user, one document and one face image of that user.\<close>

definition ex_state :: app_state where
  "ex_state = \<lparr>users = [ex_user], documents = [ex_document], faces = [ex_face],
     next_user_id = 2, next_doc_id = 2, next_face_id = 2, s3_calls = []\<rparr>"

section \<open>Lookups by primary key\<close>

lemma get_user_row_None: "i \<notin> uid ` set (users s) \<Longrightarrow> get_user_row s i = None"
  by (auto simp: get_user_row_def find_None_iff)

lemma get_document_row_None: "i \<notin> doc_id ` set (documents s) \<Longrightarrow> get_document_row s i = None"
  by (auto simp: get_document_row_def find_None_iff)

lemma get_face_row_None: "i \<notin> face_id ` set (faces s) \<Longrightarrow> get_face_row s i = None"
  by (auto simp: get_face_row_def find_None_iff)

lemma get_user_row_Some: "get_user_row s i = Some u \<Longrightarrow> uid u = i \<and> u \<in> set (users s)"
  by (auto simp: get_user_row_def find_Some_iff)

lemma get_user_row_exists:
  "i \<in> uid ` set (users s) \<Longrightarrow> \<exists>u. get_user_row s i = Some u"
  by (cases "get_user_row s i") (auto simp: get_user_row_def find_None_iff)

lemma ex_state_no_user_2: "2 \<notin> uid ` set (users ex_state)"
  by (simp add: ex_state_def ex_user_def)

lemma ex_state_user_1: "get_user_row ex_state 1 = Some ex_user"
  by (simp add: get_user_row_def ex_state_def ex_user_def)

lemma ex_state_has_user_1: "1 \<in> uid ` set (users ex_state)"
  by (simp add: ex_state_def ex_user_def)

lemma ex_state_delete_1:
  "delete_user 1 ex_state = (Inr (200, JObj [(''status'', JStr ''deleted'')]), ex_state\<lparr>users := []\<rparr>)"
proof -
  have "users ex_state = [ex_user]" "uid ex_user = 1"
    by (simp_all add: ex_state_def ex_user_def)
  then show ?thesis
    using ex_state_user_1 by (simp add: delete_user_def)
qed

section \<open>Uploads for a user that does not exist\<close>

text \<open>
  Claim C1. When no User row has primary key \<open>i\<close>, both upload handlers answer 404 with
  the body \<^verbatim>\<open>{"error": "User not found"}\<close> and return the state they were given: the
  sequence of object-store writes and the tables of documents and faces are as before,
  whatever the request carries.
\<close>

theorem upload_unknown_user_404:
  assumes "i \<notin> uid ` set (users s)"
  shows "upload_document e now i fs fm s
           = (Inr (404, JObj [(''error'', JStr ''User not found'')]), s)
       \<and> upload_face e now i fs s
           = (Inr (404, JObj [(''error'', JStr ''User not found'')]), s)"
  using get_user_row_None [OF assms] by (simp add: upload_document_def upload_face_def)

theorem upload_unknown_user_404_witness:
  "2 \<notin> uid ` set (users ex_state)
   \<and> upload_document ex_env 130 2 [''file'' \<mapsto> ex_file] [''doc_type'' \<mapsto> ''pan''] ex_state
       = (Inr (404, JObj [(''error'', JStr ''User not found'')]), ex_state)
   \<and> upload_face ex_env 130 2 [''file'' \<mapsto> ex_file] ex_state
       = (Inr (404, JObj [(''error'', JStr ''User not found'')]), ex_state)"
  using ex_state_no_user_2 upload_unknown_user_404 [OF ex_state_no_user_2] by simp

text \<open>
  Claim C9. The existence check comes first: when the user does not exist and a required
  field is missing as well (the file or the document type for a document, the file for a
  face image), the answer is the 404 of the missing user, not the 400 of the missing field.
\<close>

theorem unknown_user_before_missing_field:
  assumes "i \<notin> uid ` set (users s)"
  shows "(fs ''file'' = None \<or> fm ''doc_type'' = None \<longrightarrow>
            fst (upload_document e now i fs fm s)
              = Inr (404, JObj [(''error'', JStr ''User not found'')]))
       \<and> (fs ''file'' = None \<longrightarrow>
            fst (upload_face e now i fs s)
              = Inr (404, JObj [(''error'', JStr ''User not found'')]))"
proof -
  have "get_user_row s i = None"
    using assms by (rule get_user_row_None)
  then show ?thesis
    by (simp add: upload_document_def upload_face_def)
qed

theorem unknown_user_before_missing_field_witness:
  "2 \<notin> uid ` set (users ex_state)
   \<and> (Map.empty ''file'' = (None :: file_storage option) \<or> [''doc_type'' \<mapsto> ''pan''] ''doc_type'' = None)
   \<and> fst (upload_document ex_env 130 2 Map.empty [''doc_type'' \<mapsto> ''pan''] ex_state)
       = Inr (404, JObj [(''error'', JStr ''User not found'')])
   \<and> fst (upload_face ex_env 130 2 Map.empty ex_state)
       = Inr (404, JObj [(''error'', JStr ''User not found'')])"
  using ex_state_no_user_2
    unknown_user_before_missing_field [OF ex_state_no_user_2,
      where fs = Map.empty and fm = "[''doc_type'' \<mapsto> ''pan'']"]
  by simp

section \<open>Reads, updates and deletions of a record that does not exist\<close>

text \<open>
  Claim C7. A read, update or deletion by primary key that finds no record answers 404
  with a JSON error body and returns the state unchanged: for \<^verbatim>\<open>GET\<close>, \<^verbatim>\<open>PUT\<close> and
  \<^verbatim>\<open>DELETE /users/{id}\<close>, for \<^verbatim>\<open>DELETE /documents/{docId}\<close> and for
  \<^verbatim>\<open>DELETE /faces/{faceId}\<close>. The result is a response, not a raised exception.
\<close>

theorem missing_record_404:
  "((i \<notin> uid ` set (users s)) \<longrightarrow>
       get_user i s = (Inr (404, JObj [(''error'', JStr ''User not found'')]), s)
     \<and> update_user now i data s = (Inr (404, JObj [(''error'', JStr ''User not found'')]), s)
     \<and> delete_user i s = (Inr (404, JObj [(''error'', JStr ''User not found'')]), s))
   \<and> (j \<notin> doc_id ` set (documents s) \<longrightarrow>
       delete_document j s = (Inr (404, JObj [(''error'', JStr ''Document not found'')]), s))
   \<and> (k \<notin> face_id ` set (faces s) \<longrightarrow>
       delete_face k s = (Inr (404, JObj [(''error'', JStr ''Face not found'')]), s))"
proof (intro conjI impI)
  assume "i \<notin> uid ` set (users s)"
  then have none: "get_user_row s i = None"
    by (rule get_user_row_None)
  show "get_user i s = (Inr (404, JObj [(''error'', JStr ''User not found'')]), s)"
    using none by (simp add: get_user_def)
  show "update_user now i data s = (Inr (404, JObj [(''error'', JStr ''User not found'')]), s)"
    using none by (simp add: update_user_def)
  show "delete_user i s = (Inr (404, JObj [(''error'', JStr ''User not found'')]), s)"
    using none by (simp add: delete_user_def)
next
  assume "j \<notin> doc_id ` set (documents s)"
  then have "get_document_row s j = None"
    by (rule get_document_row_None)
  then show "delete_document j s = (Inr (404, JObj [(''error'', JStr ''Document not found'')]), s)"
    by (simp add: delete_document_def)
next
  assume "k \<notin> face_id ` set (faces s)"
  then have "get_face_row s k = None"
    by (rule get_face_row_None)
  then show "delete_face k s = (Inr (404, JObj [(''error'', JStr ''Face not found'')]), s)"
    by (simp add: delete_face_def)
qed

theorem missing_record_404_witness:
  "2 \<notin> uid ` set (users ex_state)
   \<and> get_user 2 ex_state = (Inr (404, JObj [(''error'', JStr ''User not found'')]), ex_state)
   \<and> update_user 140 2 [''phone'' \<mapsto> Some ''9999999999''] ex_state
       = (Inr (404, JObj [(''error'', JStr ''User not found'')]), ex_state)
   \<and> delete_user 2 ex_state = (Inr (404, JObj [(''error'', JStr ''User not found'')]), ex_state)
   \<and> 5 \<notin> doc_id ` set (documents ex_state)
   \<and> delete_document 5 ex_state
       = (Inr (404, JObj [(''error'', JStr ''Document not found'')]), ex_state)
   \<and> 6 \<notin> face_id ` set (faces ex_state)
   \<and> delete_face 6 ex_state = (Inr (404, JObj [(''error'', JStr ''Face not found'')]), ex_state)"
proof -
  have d: "5 \<notin> doc_id ` set (documents ex_state)"
    by (simp add: ex_state_def ex_document_def)
  have f: "6 \<notin> face_id ` set (faces ex_state)"
    by (simp add: ex_state_def ex_face_def)
  show ?thesis
    using ex_state_no_user_2 d f
      missing_record_404 [where s = ex_state and i = 2 and now = 140
          and data = "[''phone'' \<mapsto> Some ''9999999999'']" and j = 5 and k = 6]
    by simp
qed

section \<open>Deleting a user\<close>

text \<open>
  Claim C8. For a user that exists, \<^verbatim>\<open>DELETE /users/{id}\<close> answers 200 whether or not
  documents or face images refer to the user; it removes the rows of table User with
  that primary key and nothing else: the tables of documents and faces (and the object
  store) are exactly as before, so rows that refer to the deleted user stay behind.
\<close>

theorem delete_user_leaves_dependents:
  assumes "i \<in> uid ` set (users s)"
  shows "fst (delete_user i s) = Inr (200, JObj [(''status'', JStr ''deleted'')])
       \<and> users (snd (delete_user i s)) = filter (\<lambda>v. uid v \<noteq> i) (users s)
       \<and> documents (snd (delete_user i s)) = documents s
       \<and> faces (snd (delete_user i s)) = faces s
       \<and> s3_calls (snd (delete_user i s)) = s3_calls s"
proof -
  obtain u where u: "get_user_row s i = Some u"
    using get_user_row_exists [OF assms] by blast
  then have "uid u = i"
    by (simp add: get_user_row_Some)
  with u show ?thesis
    by (simp add: delete_user_def)
qed

theorem delete_user_leaves_dependents_witness:
  "1 \<in> uid ` set (users ex_state)
   \<and> fst (delete_user 1 ex_state) = Inr (200, JObj [(''status'', JStr ''deleted'')])
   \<and> users (snd (delete_user 1 ex_state)) = []
   \<and> documents (snd (delete_user 1 ex_state)) = [ex_document]
   \<and> doc_user_id ex_document = 1
   \<and> faces (snd (delete_user 1 ex_state)) = [ex_face]
   \<and> face_user_id ex_face = 1"
  using ex_state_has_user_1 delete_user_leaves_dependents [OF ex_state_has_user_1]
  by (simp add: ex_state_def ex_user_def ex_document_def ex_face_def)

section \<open>The projection of a user\<close>

text \<open>
  Claim C10. For a user that exists, \<^verbatim>\<open>GET /users/{id}\<close> answers 200 with a JSON object
  whose members are exactly id, name, phone, aadhaar and created_at, holding the values of
  the stored row. The columns email, address and updated_at do not occur: whatever they
  hold, the body is the same.
\<close>

theorem get_user_projection:
  assumes "get_user_row s i = Some u"
  shows "\<exists>kvs. get_user i s = (Inr (200, JObj kvs), s)
           \<and> user_json u = JObj kvs
           \<and> map fst kvs = [''id'', ''name'', ''phone'', ''aadhaar'', ''created_at'']
           \<and> map snd kvs = [JNum (uid u), JStr (name u), JStr (phone u),
                jopt JStr (aadhaar u), jopt JDate (created_at u)]
           \<and> (\<forall>em ad t. user_json (u\<lparr>email := em, address := ad, updated_at := t\<rparr>) = JObj kvs)"
  using assms by (simp add: get_user_def user_json_def)

theorem get_user_projection_witness:
  "get_user_row ex_state 1 = Some ex_user
   \<and> email ex_user = Some ''asha@example.org'' \<and> address ex_user = Some ''12 Lake Road''
   \<and> get_user 1 ex_state = (Inr (200, JObj [(''id'', JNum 1), (''name'', JStr ''Asha''),
        (''phone'', JStr ''9000000001''), (''aadhaar'', JStr ''123412341234''),
        (''created_at'', JDate 100)]), ex_state)"
proof -
  obtain kvs where k: "get_user 1 ex_state = (Inr (200, JObj kvs), ex_state)"
      "user_json ex_user = JObj kvs"
    using get_user_projection [OF ex_state_user_1] by blast
  from k(2) have "kvs = [(''id'', JNum 1), (''name'', JStr ''Asha''),
        (''phone'', JStr ''9000000001''), (''aadhaar'', JStr ''123412341234''),
        (''created_at'', JDate 100)]"
    by (simp add: user_json_def ex_user_def jopt_def)
  with k(1) show ?thesis
    using ex_state_user_1 by (simp add: ex_user_def)
qed

section \<open>Listing the documents and faces of a user\<close>

text \<open>
  Claim C6, as stated, fails: \<open>list_documents\<close> and \<open>get_faces\<close> do not look the user up.
  In the empty store, where user 7 does not exist, both answer 200 with an empty array;
  after user 1 of the example store has been deleted, both answer 200 with the rows left
  behind.
\<close>

theorem list_unknown_user_counterexample:
  "7 \<notin> uid ` set (users init_state)
   \<and> list_documents 7 init_state = (Inr (200, JArr []), init_state)
   \<and> get_faces 7 init_state = (Inr (200, JArr []), init_state)
   \<and> 1 \<notin> uid ` set (users (snd (delete_user 1 ex_state)))
   \<and> fst (list_documents 1 (snd (delete_user 1 ex_state))) = Inr (200, JArr [document_json ex_document])
   \<and> fst (get_faces 1 (snd (delete_user 1 ex_state))) = Inr (200, JArr [face_json ex_face])"
proof -
  have del: "snd (delete_user 1 ex_state) = ex_state\<lparr>users := []\<rparr>"
    using ex_state_delete_1 by simp
  have "list_documents 7 init_state = (Inr (200, JArr []), init_state)"
      "get_faces 7 init_state = (Inr (200, JArr []), init_state)"
      "7 \<notin> uid ` set (users init_state)"
    by (simp_all add: init_state_def list_documents_def get_faces_def)
  moreover have "fst (list_documents 1 (ex_state\<lparr>users := []\<rparr>)) = Inr (200, JArr [document_json ex_document])"
      "fst (get_faces 1 (ex_state\<lparr>users := []\<rparr>)) = Inr (200, JArr [face_json ex_face])"
    by (simp_all add: list_documents_def get_faces_def ex_state_def ex_document_def ex_face_def)
  ultimately show ?thesis
    using del by simp
qed

text \<open>
  Claim C6, amended. \<^verbatim>\<open>GET /users/{id}/documents\<close> and \<^verbatim>\<open>GET /users/{id}/face\<close> answer 200
  for every id, whether or not a User with that primary key exists; the body is the array
  of the projections of the rows whose \<^verbatim>\<open>user_id\<close> is the id, in table order (the empty
  array when there is none), and the state is unchanged.
\<close>

theorem list_by_user_id:
  "list_documents i s
     = (Inr (200, JArr (map document_json (filter (\<lambda>d. doc_user_id d = i) (documents s)))), s)
   \<and> get_faces i s
     = (Inr (200, JArr (map face_json (filter (\<lambda>f. face_user_id f = i) (faces s)))), s)"
  by (simp add: list_documents_def get_faces_def)

section \<open>Requests that lack a required field\<close>

text \<open>
  Claim C2, as stated, fails. An upload of a document without \<^verbatim>\<open>doc_type\<close> for a user
  that does not exist is answered 404, not 400; and \<open>create_user\<close> subscripts the body
  without a check, so a body without \<^verbatim>\<open>name\<close> raises \<^verbatim>\<open>KeyError\<close> instead of answering
  400.
\<close>

theorem missing_field_counterexample:
  "fst (upload_document ex_env 130 2 [''file'' \<mapsto> ex_file] Map.empty ex_state)
     = Inr (404, JObj [(''error'', JStr ''User not found'')])
   \<and> fst (create_user 130 [''phone'' \<mapsto> Some ''9000000002''] ex_state) = Inl (KeyError ''name'')"
proof -
  have "get_user_row ex_state 2 = None"
    using ex_state_no_user_2 by (rule get_user_row_None)
  then show ?thesis
    by (simp add: upload_document_def create_user_def)
qed

text \<open>
  Claim C2, amended. A request that lacks a required field has no effect on the state: no
  row is inserted and nothing is written to the object store, for \<^verbatim>\<open>POST /users\<close> without
  name or phone, for a document upload without file or \<^verbatim>\<open>doc_type\<close>, and for a face upload
  without file. When the user exists, the two upload handlers answer 400 with an error
  body that names the missing fields.
\<close>

theorem missing_field_no_effect:
  "(data ''name'' = None \<or> data ''phone'' = None \<longrightarrow> snd (create_user now data s) = s)
   \<and> (fs ''file'' = None \<or> fm ''doc_type'' = None \<longrightarrow>
        snd (upload_document e now i fs fm s) = s
        \<and> (i \<in> uid ` set (users s) \<longrightarrow>
             fst (upload_document e now i fs fm s)
               = Inr (400, JObj [(''error'', JStr ''File and doc_type required'')])))
   \<and> (fs ''file'' = None \<longrightarrow>
        snd (upload_face e now i fs s) = s
        \<and> (i \<in> uid ` set (users s) \<longrightarrow>
             fst (upload_face e now i fs s) = Inr (400, JObj [(''error'', JStr ''File required'')])))"
proof (intro conjI impI)
  assume "data ''name'' = None \<or> data ''phone'' = None"
  then show "snd (create_user now data s) = s"
    by (auto simp: create_user_def split: option.splits)
next
  assume m: "fs ''file'' = None \<or> fm ''doc_type'' = None"
  then show "snd (upload_document e now i fs fm s) = s"
    by (auto simp: upload_document_def split: option.splits)
  assume "i \<in> uid ` set (users s)"
  then obtain u where "get_user_row s i = Some u"
    using get_user_row_exists by blast
  with m show "fst (upload_document e now i fs fm s)
               = Inr (400, JObj [(''error'', JStr ''File and doc_type required'')])"
    by (auto simp: upload_document_def split: option.splits)
next
  assume m: "fs ''file'' = None"
  then show "snd (upload_face e now i fs s) = s"
    by (auto simp: upload_face_def split: option.splits)
  assume "i \<in> uid ` set (users s)"
  then obtain u where "get_user_row s i = Some u"
    using get_user_row_exists by blast
  with m show "fst (upload_face e now i fs s) = Inr (400, JObj [(''error'', JStr ''File required'')])"
    by (simp add: upload_face_def)
qed

theorem missing_field_no_effect_witness:
  "[''phone'' \<mapsto> Some ''9000000002''] ''name'' = (None :: string option option)
   \<and> snd (create_user 130 [''phone'' \<mapsto> Some ''9000000002''] ex_state) = ex_state
   \<and> [''file'' \<mapsto> ex_file] ''file'' = Some ex_file
   \<and> Map.empty ''doc_type'' = (None :: string option)
   \<and> 1 \<in> uid ` set (users ex_state)
   \<and> upload_document ex_env 130 1 [''file'' \<mapsto> ex_file] Map.empty ex_state
       = (Inr (400, JObj [(''error'', JStr ''File and doc_type required'')]), ex_state)
   \<and> upload_document ex_env 130 1 Map.empty [''doc_type'' \<mapsto> ''pan''] ex_state
       = (Inr (400, JObj [(''error'', JStr ''File and doc_type required'')]), ex_state)
   \<and> upload_face ex_env 130 1 Map.empty ex_state
       = (Inr (400, JObj [(''error'', JStr ''File required'')]), ex_state)"
  using ex_state_has_user_1
    missing_field_no_effect [where data = "[''phone'' \<mapsto> Some ''9000000002'']" and now = 130
      and s = ex_state and e = ex_env and i = 1 and fs = "[''file'' \<mapsto> ex_file]" and fm = Map.empty]
    missing_field_no_effect [where data = "[''phone'' \<mapsto> Some ''9000000002'']" and now = 130
      and s = ex_state and e = ex_env and i = 1 and fs = Map.empty and fm = "[''doc_type'' \<mapsto> ''pan'']"]
  by (simp add: prod_eq_iff)

section \<open>Updating a user\<close>

lemma find_map_keeps_uid:
  "(\<And>v. uid (f v) = uid v) \<Longrightarrow>
   find (\<lambda>v. uid v = i) (map f us) = map_option f (find (\<lambda>v. uid v = i) us)"
  by (induction us) auto

lemma commit_user_update_result:
  assumes "commit_user_update now u ph nm ad s = Inr s'"
  shows "\<exists>n p. nm = Some n \<and> ph = Some p
     \<and> s' = (if p = phone u \<and> n = name u \<and> ad = aadhaar u then s
             else s\<lparr>users := map (\<lambda>v. if uid v = uid u
                                 then v\<lparr>name := n, phone := p, aadhaar := ad,
                                        updated_at := Some now\<rparr>
                                 else v) (users s)\<rparr>)"
  using assms by (auto simp: commit_user_update_def split: if_splits option.splits)

text \<open>
  Claim C5, as stated, fails in its last part. \<^verbatim>\<open>updated_at\<close> is declared with
  \<^verbatim>\<open>onupdate=datetime.utcnow\<close>, which takes effect in an \<^verbatim>\<open>UPDATE\<close> statement only. An
  empty payload assigns no attribute: the request is answered 200 with status
  \<^verbatim>\<open>updated\<close>, and the row, its \<^verbatim>\<open>updated_at\<close> included, is as before.
\<close>

theorem update_user_empty_payload_counterexample:
  "get_user_row ex_state 1 = Some ex_user
   \<and> update_user 140 1 Map.empty ex_state
       = (Inr (200, JObj [(''status'', JStr ''updated'')]), ex_state)
   \<and> updated_at ex_user = None"
  using ex_state_user_1 by (simp add: update_user_def commit_user_update_def ex_user_def)

text \<open>
  Claim C5, amended. A successful \<^verbatim>\<open>PUT /users/{id}\<close> answers 200 and is a partial patch:
  of name, phone and aadhaar, each member present in the payload is overwritten with the
  payload's value and each absent one keeps its value; id, email, address and created_at
  are never changed, nor is any other row, table or the object store. \<^verbatim>\<open>updated_at\<close> is set
  to the time of the request when the update changes the value of at least one of name,
  phone and aadhaar, and keeps its value otherwise.
\<close>

theorem update_user_patch:
  assumes "get_user_row s i = Some u" and "update_user now i data s = (Inr r, s')"
  shows "r = (200, JObj [(''status'', JStr ''updated'')])
    \<and> (\<exists>u'. get_user_row s' i = Some u'
          \<and> (case data ''phone'' of None \<Rightarrow> phone u' = phone u | Some v \<Rightarrow> v = Some (phone u'))
          \<and> (case data ''name'' of None \<Rightarrow> name u' = name u | Some v \<Rightarrow> v = Some (name u'))
          \<and> (case data ''aadhaar'' of None \<Rightarrow> aadhaar u' = aadhaar u | Some v \<Rightarrow> aadhaar u' = v)
          \<and> uid u' = uid u \<and> email u' = email u \<and> address u' = address u
          \<and> created_at u' = created_at u
          \<and> updated_at u' = (if phone u' = phone u \<and> name u' = name u \<and> aadhaar u' = aadhaar u
                              then updated_at u else Some now))
    \<and> filter (\<lambda>v. uid v \<noteq> i) (users s') = filter (\<lambda>v. uid v \<noteq> i) (users s)
    \<and> documents s' = documents s \<and> faces s' = faces s \<and> s3_calls s' = s3_calls s"
proof -
  define ph where "ph = (case data ''phone'' of None \<Rightarrow> Some (phone u) | Some v \<Rightarrow> v)"
  define nm where "nm = (case data ''name'' of None \<Rightarrow> Some (name u) | Some v \<Rightarrow> v)"
  define ad where "ad = (case data ''aadhaar'' of None \<Rightarrow> aadhaar u | Some v \<Rightarrow> v)"
  have ui: "uid u = i"
    using assms(1) by (simp add: get_user_row_Some)
  from assms have c: "commit_user_update now u ph nm ad s = Inr s'"
      and r: "r = (200, JObj [(''status'', JStr ''updated'')])"
    by (auto simp: update_user_def ph_def nm_def ad_def Let_def split: sum.splits)
  from commit_user_update_result [OF c] obtain n p where np: "nm = Some n" "ph = Some p"
    and s': "s' = (if p = phone u \<and> n = name u \<and> ad = aadhaar u then s
             else s\<lparr>users := map (\<lambda>v. if uid v = uid u
                                 then v\<lparr>name := n, phone := p, aadhaar := ad,
                                        updated_at := Some now\<rparr>
                                 else v) (users s)\<rparr>)"
    by blast
  let ?f = "\<lambda>v. if uid v = uid u
                                 then v\<lparr>name := n, phone := p, aadhaar := ad,
                                        updated_at := Some now\<rparr>
                                 else v"
  have frame: "filter (\<lambda>v. uid v \<noteq> i) (users s') = filter (\<lambda>v. uid v \<noteq> i) (users s)"
  proof -
    have "filter (\<lambda>v. uid v \<noteq> i) (map ?f us) = filter (\<lambda>v. uid v \<noteq> i) us" for us
      using ui by (induction us) auto
    from this [of "users s"] show ?thesis
      by (simp add: s')
  qed
  have rest: "documents s' = documents s \<and> faces s' = faces s \<and> s3_calls s' = s3_calls s"
    by (simp add: s')
  have row: "get_user_row s' i = Some (if p = phone u \<and> n = name u \<and> ad = aadhaar u then u else ?f u)"
  proof (cases "p = phone u \<and> n = name u \<and> ad = aadhaar u")
    case True
    then show ?thesis
      using assms(1) by (simp add: s')
  next
    case False
    have "find (\<lambda>v. uid v = i) (map ?f (users s)) = map_option ?f (find (\<lambda>v. uid v = i) (users s))"
      by (rule find_map_keeps_uid) simp
    then show ?thesis
      using False assms(1) by (auto simp: s' get_user_row_def)
  qed
  have fields: "(case data ''phone'' of None \<Rightarrow> p = phone u | Some v \<Rightarrow> v = Some p)"
      "(case data ''name'' of None \<Rightarrow> n = name u | Some v \<Rightarrow> v = Some n)"
      "(case data ''aadhaar'' of None \<Rightarrow> ad = aadhaar u | Some v \<Rightarrow> ad = v)"
    using np by (auto simp: ph_def nm_def ad_def split: option.splits)
  show ?thesis
    using r frame rest row fields by (auto split: option.splits)
qed

lemma ex_state_update_phone:
  "update_user 140 1 [''phone'' \<mapsto> Some ''9999999999''] ex_state
     = (Inr (200, JObj [(''status'', JStr ''updated'')]),
        ex_state\<lparr>users := [ex_user\<lparr>phone := ''9999999999'', updated_at := Some 140\<rparr>]\<rparr>)"
  by (simp add: update_user_def commit_user_update_def aadhaar_taken_def get_user_row_def
      ex_state_def ex_user_def)

theorem update_user_patch_witness:
  "get_user_row ex_state 1 = Some ex_user
   \<and> update_user 140 1 [''phone'' \<mapsto> Some ''9999999999''] ex_state
     = (Inr (200, JObj [(''status'', JStr ''updated'')]),
        ex_state\<lparr>users := [ex_user\<lparr>phone := ''9999999999'', updated_at := Some 140\<rparr>]\<rparr>)
   \<and> (\<exists>u'. get_user_row (ex_state\<lparr>users := [ex_user\<lparr>phone := ''9999999999'', updated_at := Some 140\<rparr>]\<rparr>) 1
              = Some u'
          \<and> phone u' = ''9999999999'' \<and> name u' = ''Asha'' \<and> aadhaar u' = Some ''123412341234''
          \<and> email u' = Some ''asha@example.org'' \<and> updated_at u' = Some 140)"
proof -
  from update_user_patch [OF ex_state_user_1 ex_state_update_phone]
  obtain u' where "get_user_row (ex_state\<lparr>users := [ex_user\<lparr>phone := ''9999999999'', updated_at := Some 140\<rparr>]\<rparr>) 1
              = Some u'"
     "Some ''9999999999'' = Some (phone u')" "name u' = name ex_user" "aadhaar u' = aadhaar ex_user"
     "email u' = email ex_user"
     "updated_at u' = (if phone u' = phone ex_user \<and> name u' = name ex_user \<and> aadhaar u' = aadhaar ex_user
                              then updated_at ex_user else Some 140)"
    by auto
  then show ?thesis
    using ex_state_user_1 ex_state_update_phone by (auto simp: ex_user_def)
qed

section \<open>Uniqueness of aadhaar\<close>

text \<open>
  Every handler keeps a well-formed store well-formed. The two that write column aadhaar
  commit through \<open>insert_user\<close> and \<open>commit_user_update\<close>, where the unique constraint is
  checked; deleting rows cannot introduce a repetition; the others leave table User alone.
\<close>

lemma store_inv_init: "store_inv init_state"
  by (simp add: store_inv_def init_state_def)

lemma aadhaar_taken_iff: "aadhaar_taken us ad \<longleftrightarrow> ad \<noteq> None \<and> ad \<in> aadhaar ` set us"
  by (cases ad) (auto simp: aadhaar_taken_def)

lemma store_inv_insert_user:
  assumes "store_inv s" and "insert_user now nm ph ad s = Inr (k, s')"
  shows "store_inv s'"
proof -
  from assms(2) obtain n p where s': "s' = s\<lparr>users := users s @
                          [\<lparr>uid = next_user_id s, name = n, phone = p, aadhaar = ad,
                            email = None, address = None,
                            created_at = Some now, updated_at = None\<rparr>],
                       next_user_id := Suc (next_user_id s)\<rparr>"
    and free: "\<not> aadhaar_taken (users s) ad"
    by (auto simp: insert_user_def split: option.splits if_splits)
  from free have fr: "ad = None \<or> ad \<notin> aadhaar ` set (users s)"
    by (auto simp: aadhaar_taken_iff)
  from assms(1) have d: "distinct (map uid (users s))"
    and b: "\<forall>u\<in>set (users s). uid u < next_user_id s"
    and a: "\<forall>u\<in>set (users s). \<forall>v\<in>set (users s).
           aadhaar u \<noteq> None \<and> aadhaar u = aadhaar v \<longrightarrow> uid u = uid v"
    unfolding store_inv_def by blast+
  have "distinct (map uid (users s'))"
    using d b by (auto simp: s')
  moreover have "\<forall>u\<in>set (users s'). uid u < next_user_id s'"
    using b by (auto simp: s' less_Suc_eq)
  moreover have "\<forall>u\<in>set (users s'). \<forall>v\<in>set (users s').
           aadhaar u \<noteq> None \<and> aadhaar u = aadhaar v \<longrightarrow> uid u = uid v"
  proof (intro ballI impI)
    fix u v
    assume u: "u \<in> set (users s')" and v: "v \<in> set (users s')"
      and e: "aadhaar u \<noteq> None \<and> aadhaar u = aadhaar v"
    let ?new = "\<lparr>uid = next_user_id s, name = n, phone = p, aadhaar = ad,
                            email = None, address = None,
                            created_at = Some now, updated_at = None\<rparr>"
    from u v have "u \<in> set (users s) \<or> u = ?new" "v \<in> set (users s) \<or> v = ?new"
      by (auto simp: s')
    then consider "u \<in> set (users s)" "v \<in> set (users s)"
      | "u = ?new" "v = ?new"
      | "u \<in> set (users s)" "v = ?new"
      | "u = ?new" "v \<in> set (users s)"
      by blast
    then show "uid u = uid v"
    proof cases
      case 1
      with a e show ?thesis by blast
    next
      case 2
      then show ?thesis by simp
    next
      case 3
      with e have "ad \<noteq> None" "ad \<in> aadhaar ` set (users s)"
        by auto
      with fr show ?thesis by blast
    next
      case 4
      with e have "ad \<noteq> None" "ad \<in> aadhaar ` set (users s)"
        by auto
      with fr show ?thesis by blast
    qed
  qed
  ultimately show ?thesis
    by (simp add: store_inv_def)
qed

lemma store_inv_create_user: "store_inv s \<Longrightarrow> store_inv (snd (create_user now data s))"
  by (auto simp: create_user_def split: option.splits sum.splits dest: store_inv_insert_user)

lemma store_inv_commit_user_update:
  assumes "store_inv s" and "commit_user_update now u ph nm ad s = Inr s'"
  shows "store_inv s'"
proof (cases "s' = s")
  case True
  with assms(1) show ?thesis by simp
next
  case False
  with assms(2) obtain n p where s': "s' = s\<lparr>users := map (\<lambda>v. if uid v = uid u
                                 then v\<lparr>name := n, phone := p, aadhaar := ad,
                                        updated_at := Some now\<rparr>
                                 else v) (users s)\<rparr>"
    and free: "\<not> aadhaar_taken (filter (\<lambda>v. uid v \<noteq> uid u) (users s)) ad"
    by (auto simp: commit_user_update_def split: option.splits if_splits)
  let ?f = "\<lambda>v. if uid v = uid u
                                 then v\<lparr>name := n, phone := p, aadhaar := ad,
                                        updated_at := Some now\<rparr>
                                 else v"
  have uidf: "uid (?f v) = uid v" for v
    by simp
  have m: "map uid (map ?f us) = map uid us" for us
    by (induction us) auto
  from free have fr: "ad = None \<or> (\<forall>v\<in>set (users s). uid v \<noteq> uid u \<longrightarrow> aadhaar v \<noteq> ad)"
    by (force simp: aadhaar_taken_iff)
  from assms(1) have d: "distinct (map uid (users s))"
    and b: "\<forall>u\<in>set (users s). uid u < next_user_id s"
    and a: "\<forall>u\<in>set (users s). \<forall>v\<in>set (users s).
           aadhaar u \<noteq> None \<and> aadhaar u = aadhaar v \<longrightarrow> uid u = uid v"
    unfolding store_inv_def by blast+
  have "map uid (users s') = map uid (users s)"
    unfolding s' using m [of "users s"] by (simp del: map_map)
  then have "distinct (map uid (users s'))"
    using d by simp
  moreover have "\<forall>v\<in>set (users s'). uid v < next_user_id s'"
    using b by (auto simp: s')
  moreover have "\<forall>v\<in>set (users s'). \<forall>w\<in>set (users s').
           aadhaar v \<noteq> None \<and> aadhaar v = aadhaar w \<longrightarrow> uid v = uid w"
  proof (intro ballI impI)
    fix v w
    assume "v \<in> set (users s')" and "w \<in> set (users s')"
      and e: "aadhaar v \<noteq> None \<and> aadhaar v = aadhaar w"
    then obtain v0 w0 where v0: "v0 \<in> set (users s)" "v = ?f v0"
      and w0: "w0 \<in> set (users s)" "w = ?f w0"
      by (auto simp: s')
    show "uid v = uid w"
    proof (cases "uid v0 = uid u")
      case vu: True
      show ?thesis
      proof (cases "uid w0 = uid u")
        case True
        with vu v0 w0 show ?thesis by simp
      next
        case False
        with vu v0 w0 e have "ad \<noteq> None" "aadhaar w0 = ad"
          by auto
        with fr w0(1) False show ?thesis by blast
      qed
    next
      case vu: False
      show ?thesis
      proof (cases "uid w0 = uid u")
        case True
        with vu v0 w0 e have "ad \<noteq> None" "aadhaar v0 = ad"
          by auto
        with fr v0(1) vu show ?thesis by blast
      next
        case False
        with vu v0 w0 have "v = v0" "w = w0"
          by simp_all
        with e a v0(1) w0(1) show ?thesis by blast
      qed
    qed
  qed
  ultimately show ?thesis
    by (simp add: store_inv_def)
qed

lemma store_inv_update_user: "store_inv s \<Longrightarrow> store_inv (snd (update_user now i data s))"
  by (auto simp: update_user_def Let_def split: option.splits sum.splits
      dest: store_inv_commit_user_update)

lemma store_inv_delete_user: "store_inv s \<Longrightarrow> store_inv (snd (delete_user i s))"
  by (auto simp: delete_user_def store_inv_def distinct_map_filter split: option.splits)

lemma users_upload_to_supabase:
  "users (snd (upload_to_supabase e f p s)) = users s"
  "next_user_id (snd (upload_to_supabase e f p s)) = next_user_id s"
  by (simp_all add: upload_to_supabase_def Let_def)

lemma users_other_handlers:
  "users (snd (upload_document e now i fs fm s)) = users s"
  "next_user_id (snd (upload_document e now i fs fm s)) = next_user_id s"
  "users (snd (upload_face e now i fs s)) = users s"
  "next_user_id (snd (upload_face e now i fs s)) = next_user_id s"
  "users (snd (delete_document i s)) = users s"
  "next_user_id (snd (delete_document i s)) = next_user_id s"
  "users (snd (delete_face i s)) = users s"
  "next_user_id (snd (delete_face i s)) = next_user_id s"
  by (auto simp: upload_document_def upload_face_def delete_document_def delete_face_def
      upload_to_supabase_def Let_def split: option.splits prod.splits)

lemma store_inv_cong:
  assumes "users s' = users s" and "next_user_id s' = next_user_id s" and "store_inv s"
  shows "store_inv s'"
  using assms(3) unfolding store_inv_def assms(1,2) .

lemma store_inv_handle: "store_inv s \<Longrightarrow> store_inv (snd (handle e now req s))"
proof (cases req)
  case (PostUsers data)
  assume "store_inv s"
  then show ?thesis
    by (simp add: PostUsers store_inv_create_user)
next
  case (PutUser i data)
  assume "store_inv s"
  then show ?thesis
    by (simp add: PutUser store_inv_update_user)
next
  case (DeleteUser i)
  assume "store_inv s"
  then show ?thesis
    by (simp add: DeleteUser store_inv_delete_user)
qed (auto simp: home_def get_user_def list_documents_def get_faces_def
      users_other_handlers split: option.splits intro: store_inv_cong)

lemma reachable_store_inv: "reachable e s \<Longrightarrow> store_inv s"
  by (induction rule: reachable.induct) (auto intro: store_inv_init store_inv_handle)

text \<open>
  Claim C3. In every state the application can reach, no two User rows share a non-null
  aadhaar. A \<^verbatim>\<open>POST /users\<close> whose aadhaar is already stored in some row is rejected: it
  does not answer 201 (the commit raises \<^verbatim>\<open>IntegrityError\<close>, which \<open>create_user\<close> does not
  catch) and the state is unchanged.
\<close>

theorem aadhaar_unique_invariant:
  assumes "reachable e s"
  shows "(\<forall>m<length (users s). \<forall>n<length (users s).
            m \<noteq> n \<longrightarrow> aadhaar (users s ! m) \<noteq> None \<longrightarrow> aadhaar (users s ! m) \<noteq> aadhaar (users s ! n))
       \<and> (\<forall>a. Some a \<in> aadhaar ` set (users s) \<longrightarrow> data ''aadhaar'' = Some (Some a) \<longrightarrow>
            (\<forall>body. fst (create_user now data s) \<noteq> Inr (201, body))
            \<and> snd (create_user now data s) = s)"
proof (intro conjI allI impI)
  fix m n
  assume mn: "m < length (users s)" "n < length (users s)" "m \<noteq> n"
    and nn: "aadhaar (users s ! m) \<noteq> None"
  have inv: "store_inv s"
    using assms by (rule reachable_store_inv)
  then have d: "distinct (map uid (users s))"
    and a: "\<forall>u\<in>set (users s). \<forall>v\<in>set (users s).
           aadhaar u \<noteq> None \<and> aadhaar u = aadhaar v \<longrightarrow> uid u = uid v"
    unfolding store_inv_def by blast+
  show "aadhaar (users s ! m) \<noteq> aadhaar (users s ! n)"
  proof
    assume eq: "aadhaar (users s ! m) = aadhaar (users s ! n)"
    from mn have "users s ! m \<in> set (users s)" "users s ! n \<in> set (users s)"
      by simp_all
    with a nn eq have "uid (users s ! m) = uid (users s ! n)"
      by blast
    with d mn show False
      by (auto simp: distinct_conv_nth)
  qed
next
  fix a body
  assume t: "Some a \<in> aadhaar ` set (users s)" and p: "data ''aadhaar'' = Some (Some a)"
  then have "aadhaar_taken (users s) (Some a)"
    by (simp add: aadhaar_taken_def)
  with p show "fst (create_user now data s) \<noteq> Inr (201, body)"
    by (auto simp: create_user_def insert_user_def split: option.splits)
next
  fix a
  assume t: "Some a \<in> aadhaar ` set (users s)" and p: "data ''aadhaar'' = Some (Some a)"
  then have "aadhaar_taken (users s) (Some a)"
    by (simp add: aadhaar_taken_def)
  with p show "snd (create_user now data s) = s"
    by (auto simp: create_user_def insert_user_def split: option.splits)
qed

lemma ex_two_users_eq:
  "ex_two_users = \<lparr>users =
     [\<lparr>uid = 1, name = ''Asha'', phone = ''9000000001'', aadhaar = Some ''123412341234'',
       email = None, address = None, created_at = Some 90, updated_at = None\<rparr>,
      \<lparr>uid = 2, name = ''Bala'', phone = ''9000000002'', aadhaar = Some ''432143214321'',
       email = None, address = None, created_at = Some 100, updated_at = None\<rparr>],
     documents = [], faces = [], next_user_id = 3, next_doc_id = 1, next_face_id = 1,
     s3_calls = []\<rparr>"
  by (simp add: ex_two_users_def create_user_def insert_user_def aadhaar_taken_def
      init_state_def ex_payload_asha_def ex_payload_bala_def)

lemma ex_two_users_reachable: "reachable ex_env ex_two_users"
  unfolding ex_two_users_def by (intro reachable_step reachable_init)

theorem aadhaar_unique_invariant_witness:
  "reachable ex_env ex_two_users
   \<and> length (users ex_two_users) = 2
   \<and> aadhaar (users ex_two_users ! 0) = Some ''123412341234''
   \<and> aadhaar (users ex_two_users ! 0) \<noteq> aadhaar (users ex_two_users ! 1)
   \<and> ex_payload_dup ''aadhaar'' = Some (Some ''123412341234'')
   \<and> fst (create_user 110 ex_payload_dup ex_two_users)
       \<noteq> Inr (201, JObj [(''status'', JStr ''success''), (''user_id'', JNum 3)])
   \<and> snd (create_user 110 ex_payload_dup ex_two_users) = ex_two_users"
proof -
  note inst = aadhaar_unique_invariant [OF ex_two_users_reachable, where data = ex_payload_dup and now = 110]
  have len: "length (users ex_two_users) = 2"
    and a0: "aadhaar (users ex_two_users ! 0) = Some ''123412341234''"
    and mem: "Some ''123412341234'' \<in> aadhaar ` set (users ex_two_users)"
    by (simp_all add: ex_two_users_eq)
  have dup: "ex_payload_dup ''aadhaar'' = Some (Some ''123412341234'')"
    by (simp add: ex_payload_dup_def)
  from inst len a0 have "aadhaar (users ex_two_users ! 0) \<noteq> aadhaar (users ex_two_users ! 1)"
    by (metis option.distinct(1) zero_less_numeral one_less_numeral_iff semiring_norm(76) zero_neq_one)
  moreover from inst mem dup
  have "fst (create_user 110 ex_payload_dup ex_two_users)
       \<noteq> Inr (201, JObj [(''status'', JStr ''success''), (''user_id'', JNum 3)])"
    "snd (create_user 110 ex_payload_dup ex_two_users) = ex_two_users"
    by blast+
  ultimately show ?thesis
    using ex_two_users_reachable len a0 dup by simp
qed

section \<open>The object key and the public URL\<close>

lemma replace_ne_absent: "\<not> sublist old s \<Longrightarrow> replace_ne old new s = s"
proof (induction old new s rule: replace_ne.induct)
  case (1 old new)
  show ?case by simp
next
  case (2 old new c cs)
  from "2.prems" have np: "\<not> prefix old (c # cs)" and ns: "\<not> sublist old cs"
    by (simp_all add: sublist_Cons_right)
  from np ns "2.IH"(2) show ?case
    by simp
qed

lemma no_prefix_across:
  assumes "\<not> sublist ''/s3'' (c # cs)"
  shows "\<not> prefix ''/s3'' (c # cs @ ''/s3'')"
proof
  assume p: "prefix ''/s3'' (c # cs @ ''/s3'')"
  show False
  proof (cases cs)
    case Nil
    with p show False by simp
  next
    case (Cons x xs)
    show False
    proof (cases xs)
      case Nil
      with Cons p show False by simp
    next
      case (Cons y ys)
      with \<open>cs = x # xs\<close> p have "c # cs = ''/s3'' @ ys"
        by simp
      then have "sublist ''/s3'' (c # cs)"
        by (metis sublist_append_rightI)
      with assms show False by simp
    qed
  qed
qed

lemma replace_ne_suffix_only:
  "\<not> sublist ''/s3'' ep \<Longrightarrow> replace_ne ''/s3'' '''' (ep @ ''/s3'') = ep"
proof (induction ep)
  case Nil
  show ?case by simp
next
  case (Cons c cs)
  from Cons.prems have np: "\<not> prefix ''/s3'' (c # cs @ ''/s3'')"
    by (rule no_prefix_across)
  from Cons.prems have "\<not> sublist ''/s3'' cs"
    by (simp add: sublist_Cons_right)
  then have ih: "replace_ne ''/s3'' '''' (cs @ ''/s3'') = cs"
    by (rule Cons.IH)
  have "replace_ne ''/s3'' '''' (c # cs @ ''/s3'')
      = (if ''/s3'' \<noteq> [] \<and> prefix ''/s3'' (c # cs @ ''/s3'')
         then '''' @ replace_ne ''/s3'' '''' (drop (length ''/s3'') (c # cs @ ''/s3''))
         else c # replace_ne ''/s3'' '''' (cs @ ''/s3''))"
    by (rule replace_ne.simps(2))
  also have "\<dots> = c # replace_ne ''/s3'' '''' (cs @ ''/s3'')"
    by (simp only: np simp_thms if_False)
  finally show ?case
    by (simp only: ih append_Cons)
qed

lemma spec_endpoint_base_suffix: "spec_endpoint_base (ep @ ''/s3'') = ep"
  by (simp add: spec_endpoint_base_def suffix_def)

lemma no_suffix_if_absent: "\<not> sublist ''/s3'' ep \<Longrightarrow> \<not> suffix ''/s3'' ep"
  by (meson suffix_imp_sublist)

text \<open>
  Where the code and the specification agree: when \<^verbatim>\<open>/s3\<close> occurs in the endpoint as its
  suffix only, or not at all, the URL that \<open>upload_to_supabase\<close> returns is the one the
  specification describes. The object is written under the key
  \<^verbatim>\<open>path/secure_filename(name)\<close> in every case.
\<close>

lemma upload_url_agrees:
  assumes "ep = S3_ENDPOINT e" and "\<not> sublist ''/s3'' base"
    and "ep = base \<or> ep = base @ ''/s3''"
  shows "fst (upload_to_supabase e file path s)
           = spec_public_url ep (S3_BUCKET e) (path @ ''/'' @ secure_filename e (filename file))"
proof -
  have "py_replace ep ''/s3'' '''' = spec_endpoint_base ep"
    using assms(3)
  proof
    assume "ep = base"
    with assms(2) show ?thesis
      by (simp add: py_replace_def replace_ne_absent spec_endpoint_base_def no_suffix_if_absent)
  next
    assume "ep = base @ ''/s3''"
    with assms(2) show ?thesis
      by (simp add: py_replace_def replace_ne_suffix_only spec_endpoint_base_suffix)
  qed
  then show ?thesis
    by (simp add: upload_to_supabase_def Let_def spec_public_url_def assms(1) [symmetric])
qed

lemma upload_to_supabase_put:
  "s3_calls (snd (upload_to_supabase e file path s))
     = s3_calls s @ [\<lparr>put_bucket = S3_BUCKET e,
          put_key = path @ ''/'' @ secure_filename e (filename file),
          put_body = content file, put_content_type = mimetype file\<rparr>]"
  by (simp add: upload_to_supabase_def Let_def)

text \<open>
  Claim C4 says that the returned URL starts with the endpoint less its trailing \<^verbatim>\<open>/s3\<close>,
  and only that suffix. The code builds it with \<^verbatim>\<open>S3_ENDPOINT.replace('/s3','')\<close>, which
  removes every occurrence. With the endpoint \<^verbatim>\<open>https://s3.example.com/storage/v1/s3\<close>
  the code returns a URL that starts \<^verbatim>\<open>https:/.example.com/storage/v1\<close>, the host
  damaged, where the claim describes \<^verbatim>\<open>https://s3.example.com/storage/v1\<close>.
\<close>

theorem upload_url_strips_every_s3:
  "fst (upload_to_supabase ex_env_s3_host ex_file ''faces/1'' init_state)
     = ''https:/.example.com/storage/v1/object/public/kyc/faces/1/pan.png''
   \<and> map put_key (s3_calls (snd (upload_to_supabase ex_env_s3_host ex_file ''faces/1'' init_state)))
     = [''faces/1/pan.png'']
   \<and> spec_public_url (S3_ENDPOINT ex_env_s3_host) (S3_BUCKET ex_env_s3_host)
        (''faces/1'' @ ''/'' @ secure_filename ex_env_s3_host (filename ex_file))
     = ''https://s3.example.com/storage/v1/object/public/kyc/faces/1/pan.png''"
  by (simp add: upload_to_supabase_def Let_def py_replace_def spec_public_url_def
      spec_endpoint_base_def ex_env_s3_host_def ex_file_def example_sanitize_def suffix_def
      init_state_def)

end
